theory Spec2Isabelle
  imports Main "HOL-Library.Sublist"
begin

section \<open>The naming-system client \<^verbatim>\<open>aeternity/aens.py\<close>\<close>

text \<open>
  A shallow embedding of the class \<^verbatim>\<open>AEName\<close>. The object is a record that every
  method takes and returns; the node client and the key pair, which live in other modules,
  are records of functions given as parameters. An exception is the left summand of the
  result, returned together with the object as the method had mutated it when it raised.

  Python strings are modelled as \<^typ>\<open>string\<close>; a character above 127 stands for a
  code point outside ASCII.
\<close>

subsection \<open>Values exchanged with the node\<close>

datatype json =
    JNull
  | JBool bool
  | JInt int
  | JStr string
  | JList "json list"
  | JObj "(string \<times> json) list"

type_synonym dict = "(string \<times> json) list"

datatype exn =
    NameNotAvailable string
  | PreclaimFailed dict
  | TooEarlyClaim string
  | AENSException string dict
  | UpdateError dict
  | MissingPreclaim string
  | ValueError string
  | KeyError string
  | TypeError
  | AssertionError string
  | UnicodeEncodeError
  | OtherException string

text \<open>\<^verbatim>\<open>key in d\<close> and \<^verbatim>\<open>d[key]\<close> on a dictionary.\<close>

definition contains :: "dict \<Rightarrow> string \<Rightarrow> bool" where
  "contains d k = (map_of d k \<noteq> None)"

definition getitem :: "dict \<Rightarrow> string \<Rightarrow> exn + json" where
  "getitem d k = (case map_of d k of None \<Rightarrow> Inl (KeyError k) | Some v \<Rightarrow> Inr v)"

text \<open>\<^verbatim>\<open>s.startswith((p1, p2))\<close> and \<^verbatim>\<open>s.endswith((p1, p2))\<close> with a tuple of candidates.\<close>

definition startswith :: "string \<Rightarrow> string list \<Rightarrow> bool" where
  "startswith s ps = list_ex (\<lambda>p. prefix p s) ps"

definition endswith :: "string \<Rightarrow> string list \<Rightarrow> bool" where
  "endswith s ps = list_ex (\<lambda>p. suffix p s) ps"

text \<open>\<^verbatim>\<open>s.encode('ascii')\<close>: the bytes of the string, or an error at a character outside ASCII.\<close>

definition is_ascii :: "string \<Rightarrow> bool" where
  "is_ascii s = list_all (\<lambda>c. (of_char c :: nat) < 128) s"

definition encode_ascii :: "string \<Rightarrow> exn + string" where
  "encode_ascii s = (if is_ascii s then Inr s else Inl UnicodeEncodeError)"

subsection \<open>Library functions and collaborators\<close>

datatype signable = SignableTx dict

text \<open>
  The functions of \<^verbatim>\<open>base58\<close>, \<^verbatim>\<open>json\<close> and \<^verbatim>\<open>aeternity.signing\<close> that the class calls.
\<close>

record libs =
  b58encode_check :: "string \<Rightarrow> string"
  json_loads :: "string \<Rightarrow> exn + json"
  json_dumps :: "json \<Rightarrow> string"
  SignableTransaction :: "dict \<Rightarrow> exn + signable"

subsection \<open>The identifier codec\<close>

datatype NameStatus = REVOKED | UNKNOWN | AVAILABLE | PRECLAIMED | CLAIMED | TRANSFERRED

definition validate_address :: "string \<Rightarrow> bool \<Rightarrow> exn + bool" where
  "validate_address address raise_exception =
     (if \<not> startswith address [''ak$'', ''ok$''] then
        (if raise_exception then Inl (ValueError ''pointer addresses must start with in ak$'')
         else Inr False)
      else Inr True)"

definition validate_name :: "string \<Rightarrow> bool \<Rightarrow> exn + bool" where
  "validate_name domain raise_exception =
     (if \<not> endswith domain [''.aet'', ''.test''] then
        (if raise_exception then Inl (ValueError ''AENS TLDs must end in .aet'')
         else Inr False)
      else Inr True)"

text \<open>
  \<^verbatim>\<open>not validate_address(p, False) or not validate_name(p, False)\<close>; the second operand
  of \<^verbatim>\<open>or\<close> is evaluated only when the first is false.
\<close>

definition validate_pointer :: "string \<Rightarrow> exn + bool" where
  "validate_pointer pointer =
     (case validate_address pointer False of
        Inl e \<Rightarrow> Inl e
      | Inr a \<Rightarrow>
          if \<not> a then Inr True
          else (case validate_name pointer False of
                  Inl e \<Rightarrow> Inl e
                | Inr n \<Rightarrow> Inr (\<not> n)))"

text \<open>\<^verbatim>\<open>'nm$' + b58encode_check(name.encode('ascii'))\<close>\<close>

definition encode_name :: "libs \<Rightarrow> string \<Rightarrow> exn + string" where
  "encode_name L name =
     (case encode_ascii name of
        Inl e \<Rightarrow> Inl e
      | Inr bytes \<Rightarrow> Inr (''nm$'' @ b58encode_check L bytes))"

subsection \<open>The node client and the key pair\<close>

text \<open>
  \<^verbatim>\<open>EpochClient\<close> and the key pair are defined in other modules. The client is a table of
  methods over a state \<open>'c\<close> of its own (the node as the client sees it); each method
  returns its answer, or the exception it raises, and the next state.
\<close>

record 'c EpochClient =
  get_height :: "'c \<Rightarrow> (exn + int) \<times> 'c"
  external_http_get :: "string \<Rightarrow> dict \<Rightarrow> 'c \<Rightarrow> (exn + dict) \<times> 'c"
  external_http_post :: "string \<Rightarrow> dict \<Rightarrow> 'c \<Rightarrow> (exn + dict) \<times> 'c"
  internal_http_post :: "string \<Rightarrow> dict \<Rightarrow> 'c \<Rightarrow> (exn + dict) \<times> 'c"
  send_signed_transaction :: "json \<Rightarrow> 'c \<Rightarrow> (exn + unit) \<times> 'c"
  wait_for_next_block :: "'c \<Rightarrow> (exn + unit) \<times> 'c"

record KeyPair =
  get_address :: string
  sign_transaction :: "signable \<Rightarrow> exn + (json \<times> string)"

text \<open>
  Every call that leaves the class is recorded, in order, beside the client's state, so
  that a statement can say which calls a method made.
\<close>

datatype call =
    GetHeight
  | ExternalHttpGet string dict
  | ExternalHttpPost string dict
  | InternalHttpPost string dict
  | SendSignedTransaction json
  | WaitForNextBlock
  | GetAddress
  | SignTransaction signable

record 'c world =
  node :: 'c
  calls :: "call list"

definition client_get_height :: "'c EpochClient \<Rightarrow> 'c world \<Rightarrow> (exn + int) \<times> 'c world" where
  "client_get_height cl w =
     (case get_height cl (node w) of
        (r, c) \<Rightarrow> (r, \<lparr>node = c, calls = calls w @ [GetHeight]\<rparr>))"

definition client_external_http_get ::
  "'c EpochClient \<Rightarrow> string \<Rightarrow> dict \<Rightarrow> 'c world \<Rightarrow> (exn + dict) \<times> 'c world" where
  "client_external_http_get cl path params w =
     (case external_http_get cl path params (node w) of
        (r, c) \<Rightarrow> (r, \<lparr>node = c, calls = calls w @ [ExternalHttpGet path params]\<rparr>))"

definition client_external_http_post ::
  "'c EpochClient \<Rightarrow> string \<Rightarrow> dict \<Rightarrow> 'c world \<Rightarrow> (exn + dict) \<times> 'c world" where
  "client_external_http_post cl path body w =
     (case external_http_post cl path body (node w) of
        (r, c) \<Rightarrow> (r, \<lparr>node = c, calls = calls w @ [ExternalHttpPost path body]\<rparr>))"

definition client_internal_http_post ::
  "'c EpochClient \<Rightarrow> string \<Rightarrow> dict \<Rightarrow> 'c world \<Rightarrow> (exn + dict) \<times> 'c world" where
  "client_internal_http_post cl path body w =
     (case internal_http_post cl path body (node w) of
        (r, c) \<Rightarrow> (r, \<lparr>node = c, calls = calls w @ [InternalHttpPost path body]\<rparr>))"

definition client_send_signed_transaction ::
  "'c EpochClient \<Rightarrow> json \<Rightarrow> 'c world \<Rightarrow> (exn + unit) \<times> 'c world" where
  "client_send_signed_transaction cl tx w =
     (case send_signed_transaction cl tx (node w) of
        (r, c) \<Rightarrow> (r, \<lparr>node = c, calls = calls w @ [SendSignedTransaction tx]\<rparr>))"

definition client_wait_for_next_block ::
  "'c EpochClient \<Rightarrow> 'c world \<Rightarrow> (exn + unit) \<times> 'c world" where
  "client_wait_for_next_block cl w =
     (case wait_for_next_block cl (node w) of
        (r, c) \<Rightarrow> (r, \<lparr>node = c, calls = calls w @ [WaitForNextBlock]\<rparr>))"

definition keypair_get_address :: "KeyPair \<Rightarrow> 'c world \<Rightarrow> string \<times> 'c world" where
  "keypair_get_address keypair w = (get_address keypair, w\<lparr>calls := calls w @ [GetAddress]\<rparr>)"

definition keypair_sign_transaction ::
  "KeyPair \<Rightarrow> signable \<Rightarrow> 'c world \<Rightarrow> (exn + (json \<times> string)) \<times> 'c world" where
  "keypair_sign_transaction keypair tx w =
     (sign_transaction keypair tx, w\<lparr>calls := calls w @ [SignTransaction tx]\<rparr>)"

subsection \<open>The class \<^verbatim>\<open>AEName\<close>\<close>

record AEName =
  domain :: string
  status :: NameStatus
  preclaimed_block_height :: "int option"
  preclaimed_commitment_hash :: "json option"
  preclaim_salt :: "int option"
  name_ttl :: json
  pointers :: json

text \<open>\<^verbatim>\<open>__init__\<close>, for a client that the caller supplies.\<close>

definition init :: "string \<Rightarrow> exn + AEName" where
  "init d =
     (case validate_name d True of
        Inl e \<Rightarrow> Inl e
      | Inr _ \<Rightarrow>
          Inr \<lparr>domain = d, status = UNKNOWN, preclaimed_block_height = None,
               preclaimed_commitment_hash = None, preclaim_salt = None,
               name_ttl = JInt 0, pointers = JList []\<rparr>)"

definition name_hash :: "libs \<Rightarrow> AEName \<Rightarrow> exn + string" where
  "name_hash L self = encode_name L (domain self)"

text \<open>\<^verbatim>\<open>json.loads\<close> of a value taken from a response: only a string can be parsed.\<close>

definition loads :: "libs \<Rightarrow> json \<Rightarrow> exn + json" where
  "loads L v = (case v of JStr s \<Rightarrow> json_loads L s | _ \<Rightarrow> Inl TypeError)"

text \<open>The body of the \<^verbatim>\<open>try\<close> block of \<^verbatim>\<open>update_status\<close>.\<close>

definition update_status_try ::
  "libs \<Rightarrow> 'c EpochClient \<Rightarrow> AEName \<Rightarrow> 'c world \<Rightarrow> (exn + unit) \<times> AEName \<times> 'c world" where
  "update_status_try L cl self w =
     (case client_external_http_get cl ''name'' [(''name'', JStr (domain self))] w of
        (Inl e, w1) \<Rightarrow> (Inl e, self, w1)
      | (Inr response, w1) \<Rightarrow>
          let self1 = self\<lparr>status := CLAIMED\<rparr> in
          (case getitem response ''name_ttl'' of
             Inl e \<Rightarrow> (Inl e, self1, w1)
           | Inr ttl \<Rightarrow>
               let self2 = self1\<lparr>name_ttl := ttl\<rparr> in
               (case getitem response ''pointers'' of
                  Inl e \<Rightarrow> (Inl e, self2, w1)
                | Inr p \<Rightarrow>
                    (case loads L p of
                       Inl e \<Rightarrow> (Inl e, self2, w1)
                     | Inr v \<Rightarrow> (Inr (), self2\<lparr>pointers := v\<rparr>, w1)))))"

text \<open>\<^verbatim>\<open>update_status\<close>: the handler catches \<^verbatim>\<open>NameNotAvailable\<close> and nothing else.\<close>

definition update_status ::
  "libs \<Rightarrow> 'c EpochClient \<Rightarrow> AEName \<Rightarrow> 'c world \<Rightarrow> (exn + unit) \<times> AEName \<times> 'c world" where
  "update_status L cl self w =
     (case update_status_try L cl self w of
        (Inl (NameNotAvailable x), self1, w1) \<Rightarrow>
          (Inr (), (if status self1 = UNKNOWN then self1\<lparr>status := AVAILABLE\<rparr> else self1), w1)
      | (r, self1, w1) \<Rightarrow> (r, self1, w1))"

definition is_available ::
  "libs \<Rightarrow> 'c EpochClient \<Rightarrow> AEName \<Rightarrow> 'c world \<Rightarrow> (exn + bool) \<times> AEName \<times> 'c world" where
  "is_available L cl self w =
     (case update_status L cl self w of
        (Inl e, self1, w1) \<Rightarrow> (Inl e, self1, w1)
      | (Inr _, self1, w1) \<Rightarrow> (Inr (status self1 = AVAILABLE), self1, w1))"

definition check_claimed ::
  "libs \<Rightarrow> 'c EpochClient \<Rightarrow> AEName \<Rightarrow> 'c world \<Rightarrow> (exn + bool) \<times> AEName \<times> 'c world" where
  "check_claimed L cl self w =
     (case update_status L cl self w of
        (Inl e, self1, w1) \<Rightarrow> (Inl e, self1, w1)
      | (Inr _, self1, w1) \<Rightarrow> (Inr (status self1 = CLAIMED), self1, w1))"

definition get_commitment_hash ::
  "'c EpochClient \<Rightarrow> AEName \<Rightarrow> json \<Rightarrow> 'c world \<Rightarrow> (exn + json) \<times> 'c world" where
  "get_commitment_hash cl self salt w =
     (case client_external_http_get cl ''commitment-hash''
             [(''name'', JStr (domain self)), (''salt'', salt)] w of
        (Inl e, w1) \<Rightarrow> (Inl e, w1)
      | (Inr response, w1) \<Rightarrow>
          (case getitem response ''commitment'' of
             Inl _ \<Rightarrow> (Inl (PreclaimFailed response), w1)
           | Inr c \<Rightarrow> (Inr c, w1)))"

definition salt_json :: "int option \<Rightarrow> json" where
  "salt_json s = (case s of None \<Rightarrow> JNull | Some n \<Rightarrow> JInt n)"

text \<open>
  \<^verbatim>\<open>preclaim\<close>. The argument \<open>rnd\<close> is the number that \<^verbatim>\<open>random.randint(0, 2**64)\<close>
  draws when no salt is given.
\<close>

definition preclaim ::
  "libs \<Rightarrow> 'c EpochClient \<Rightarrow> KeyPair \<Rightarrow> int \<Rightarrow> int option \<Rightarrow> int \<Rightarrow> AEName \<Rightarrow> 'c world
     \<Rightarrow> (exn + (json \<times> int option)) \<times> AEName \<times> 'c world" where
  "preclaim L cl keypair fee salt rnd self w =
     (case client_get_height cl w of
        (Inl e, w1) \<Rightarrow> (Inl e, self, w1)
      | (Inr h, w1) \<Rightarrow>
          let self1 = self\<lparr>preclaimed_block_height := Some h\<rparr>;
              self2 = self1\<lparr>preclaim_salt := (case salt of Some s \<Rightarrow> Some s | None \<Rightarrow> Some rnd)\<rparr>
          in
          (case get_commitment_hash cl self2 (salt_json (preclaim_salt self2)) w1 of
             (Inl e, w2) \<Rightarrow> (Inl e, self2, w2)
           | (Inr commitment_hash, w2) \<Rightarrow>
               (case keypair_get_address keypair w2 of
                  (account, w3) \<Rightarrow>
                    (case client_external_http_post cl ''/tx/name/preclaim''
                            [(''commitment'', commitment_hash), (''fee'', JInt fee),
                             (''account'', JStr account)] w3 of
                       (Inl e, w4) \<Rightarrow> (Inl e, self2, w4)
                     | (Inr preclaim_transaction, w4) \<Rightarrow>
                         (case SignableTransaction L preclaim_transaction of
                            Inl e \<Rightarrow> (Inl e, self2, w4)
                          | Inr signable_preclaim_tx \<Rightarrow>
                              (case keypair_sign_transaction keypair signable_preclaim_tx w4 of
                                 (Inl e, w5) \<Rightarrow> (Inl e, self2, w5)
                               | (Inr (signed_transaction, b58signature), w5) \<Rightarrow>
                                   (case client_send_signed_transaction cl signed_transaction w5 of
                                      (Inl e, w6) \<Rightarrow> (Inl e, self2, w6)
                                    | (Inr _, w6) \<Rightarrow>
                                        let self3 = self2\<lparr>status := PRECLAIMED\<rparr> in
                                        (case getitem preclaim_transaction ''tx_hash'' of
                                           Inl e \<Rightarrow> (Inl e, self3, w6)
                                         | Inr tx_hash \<Rightarrow>
                                             (Inr (tx_hash, preclaim_salt self3), self3, w6)))))))))"

definition too_early_message :: string where
  "too_early_message =
     ''You must wait for one block to call claim.'' @
     ''Use `claim_blocking` if you have a lot of time on your hands''"

definition claim ::
  "libs \<Rightarrow> 'c EpochClient \<Rightarrow> KeyPair \<Rightarrow> int \<Rightarrow> AEName \<Rightarrow> 'c world
     \<Rightarrow> (exn + (json \<times> int option)) \<times> AEName \<times> 'c world" where
  "claim L cl keypair fee self w =
     (case preclaimed_block_height self of
        None \<Rightarrow> (Inl (MissingPreclaim ''You must call preclaim before claiming a name''), self, w)
      | Some pbh \<Rightarrow>
          (case client_get_height cl w of
             (Inl e, w1) \<Rightarrow> (Inl e, self, w1)
           | (Inr current_block_height, w1) \<Rightarrow>
               if pbh \<ge> current_block_height then
                 (Inl (TooEarlyClaim too_early_message), self, w1)
               else
                 (case keypair_get_address keypair w1 of
                    (account, w2) \<Rightarrow>
                      (case encode_name L (domain self) of
                         Inl e \<Rightarrow> (Inl e, self, w2)
                       | Inr name \<Rightarrow>
                           (case client_external_http_post cl ''/tx/name/claim''
                                   [(''account'', JStr account), (''name'', JStr name),
                                    (''name_salt'', salt_json (preclaim_salt self)),
                                    (''fee'', JInt fee)] w2 of
                              (Inl e, w3) \<Rightarrow> (Inl e, self, w3)
                            | (Inr claim_transaction, w3) \<Rightarrow>
                                (case SignableTransaction L claim_transaction of
                                   Inl e \<Rightarrow> (Inl e, self, w3)
                                 | Inr signable_claim_tx \<Rightarrow>
                                     (case keypair_sign_transaction keypair signable_claim_tx w3 of
                                        (Inl e, w4) \<Rightarrow> (Inl e, self, w4)
                                      | (Inr (signed_transaction, b58signature), w4) \<Rightarrow>
                                          (case client_send_signed_transaction cl signed_transaction w4 of
                                             (Inl e, w5) \<Rightarrow> (Inl e, self, w5)
                                           | (Inr _, w5) \<Rightarrow>
                                               let self1 = self\<lparr>status := CLAIMED\<rparr> in
                                               (case getitem claim_transaction ''tx_hash'' of
                                                  Inl e \<Rightarrow> (Inl e, self1, w5)
                                                | Inr tx_hash \<Rightarrow>
                                                    (Inr (tx_hash, preclaim_salt self1), self1, w5))))))))))"

text \<open>\<^verbatim>\<open>except TooEarlyClaim\<close> catches that exception only.\<close>

fun is_TooEarlyClaim :: "exn + 'a \<Rightarrow> bool" where
  "is_TooEarlyClaim (Inl (TooEarlyClaim m)) = True"
| "is_TooEarlyClaim _ = False"

text \<open>A method that returns nothing: the value of its last call is dropped.\<close>

definition discard :: "exn + 'a \<Rightarrow> exn + unit" where
  "discard r = (case r of Inl e \<Rightarrow> Inl e | Inr _ \<Rightarrow> Inr ())"

definition claim_blocking ::
  "libs \<Rightarrow> 'c EpochClient \<Rightarrow> KeyPair \<Rightarrow> int \<Rightarrow> AEName \<Rightarrow> 'c world
     \<Rightarrow> (exn + unit) \<times> AEName \<times> 'c world" where
  "claim_blocking L cl keypair fee self w =
     (case claim L cl keypair fee self w of
        (r, self1, w1) \<Rightarrow>
          if is_TooEarlyClaim r then
            (case client_wait_for_next_block cl w1 of
               (Inl e, w2) \<Rightarrow> (Inl e, self1, w2)
             | (Inr _, w2) \<Rightarrow>
                 (case claim L cl keypair fee self1 w2 of
                    (r2, self2, w3) \<Rightarrow> (discard r2, self2, w3)))
          else (discard r, self1, w1))"

definition full_claim_blocking ::
  "libs \<Rightarrow> 'c EpochClient \<Rightarrow> KeyPair \<Rightarrow> int \<Rightarrow> int \<Rightarrow> int \<Rightarrow> AEName \<Rightarrow> 'c world
     \<Rightarrow> (exn + unit) \<times> AEName \<times> 'c world" where
  "full_claim_blocking L cl keypair preclaim_fee claim_fee rnd self w =
     (case is_available L cl self w of
        (Inl e, self1, w1) \<Rightarrow> (Inl e, self1, w1)
      | (Inr available, self1, w1) \<Rightarrow>
          if \<not> available then (Inl (NameNotAvailable (domain self1)), self1, w1)
          else
            (case preclaim L cl keypair preclaim_fee None rnd self1 w1 of
               (Inl e, self2, w2) \<Rightarrow> (Inl e, self2, w2)
             | (Inr _, self2, w2) \<Rightarrow> claim_blocking L cl keypair claim_fee self2 w2))"

text \<open>The target of \<^verbatim>\<open>update\<close>: an \<^verbatim>\<open>Oracle\<close> object with its \<^verbatim>\<open>oracle_id\<close>, or a string.\<close>

datatype target = Oracle "string option" | Address string

definition update ::
  "libs \<Rightarrow> 'c EpochClient \<Rightarrow> target \<Rightarrow> int \<Rightarrow> int \<Rightarrow> AEName \<Rightarrow> 'c world
     \<Rightarrow> (exn + unit) \<times> AEName \<times> 'c world" where
  "update L cl target ttl fee self w =
     (if status self \<noteq> CLAIMED then
        (Inl (AssertionError ''Must be claimed to update pointer''), self, w)
      else
        (case (case target of
                 Oracle None \<Rightarrow>
                   Inl (ValueError ''You must register the oracle before using it as target'')
               | Oracle (Some oracle_id) \<Rightarrow> Inr oracle_id
               | Address a \<Rightarrow> Inr a) of
           Inl e \<Rightarrow> (Inl e, self, w)
         | Inr target1 \<Rightarrow>
             let pointers1 =
               (if startswith target1 [''ak''] then [(''account_pubkey'', JStr target1)]
                else [(''oracle_pubkey'', JStr target1)])
             in
             (case name_hash L self of
                Inl e \<Rightarrow> (Inl e, self, w)
              | Inr nh \<Rightarrow>
                  (case client_internal_http_post cl ''name-update-tx''
                          [(''name_hash'', JStr nh), (''name_ttl'', name_ttl self),
                           (''ttl'', JInt ttl),
                           (''pointers'', JStr (json_dumps L (JObj pointers1))),
                           (''fee'', JInt fee)] w of
                     (Inl e, w1) \<Rightarrow> (Inl e, self, w1)
                   | (Inr response, w1) \<Rightarrow>
                       if contains response ''name_hash'' then
                         (Inr (), self\<lparr>pointers := JObj pointers1\<rparr>, w1)
                       else (Inl (UpdateError response), self, w1)))))"

definition transfer_ownership ::
  "libs \<Rightarrow> 'c EpochClient \<Rightarrow> string \<Rightarrow> int \<Rightarrow> AEName \<Rightarrow> 'c world
     \<Rightarrow> (exn + unit) \<times> AEName \<times> 'c world" where
  "transfer_ownership L cl receipient_pubkey fee self w =
     (case name_hash L self of
        Inl e \<Rightarrow> (Inl e, self, w)
      | Inr nh \<Rightarrow>
          (case client_internal_http_post cl ''name-transfer-tx''
                  [(''name_hash'', JStr nh), (''recipient_pubkey'', JStr receipient_pubkey),
                   (''fee'', JInt fee)] w of
             (Inl e, w1) \<Rightarrow> (Inl e, self, w1)
           | (Inr response, w1) \<Rightarrow>
               if \<not> contains response ''name_hash'' then
                 (Inl (AENSException ''transfer ownership failed'' response), self, w1)
               else (Inr (), self\<lparr>status := TRANSFERRED\<rparr>, w1)))"

definition revoke ::
  "libs \<Rightarrow> 'c EpochClient \<Rightarrow> int \<Rightarrow> AEName \<Rightarrow> 'c world
     \<Rightarrow> (exn + unit) \<times> AEName \<times> 'c world" where
  "revoke L cl fee self w =
     (case name_hash L self of
        Inl e \<Rightarrow> (Inl e, self, w)
      | Inr nh \<Rightarrow>
          (case client_internal_http_post cl ''name-revoke-tx''
                  [(''name_hash'', JStr nh), (''fee'', JInt fee)] w of
             (Inl e, w1) \<Rightarrow> (Inl e, self, w1)
           | (Inr response, w1) \<Rightarrow>
               if contains response ''name_hash'' then
                 (Inr (), self\<lparr>status := REVOKED\<rparr>, w1)
               else (Inl (AENSException ''Error revoking name'' response), self, w1)))"

subsection \<open>A simulated node, for running the methods\<close>

text \<open>
  A node whose state is the chain height. Looking a name up gives \<open>lookup\<close>, every
  transaction is accepted, waiting for a block adds one to the height, and the internal
  endpoints answer \<open>reply\<close>.
\<close>

definition sim_client :: "exn + dict \<Rightarrow> dict \<Rightarrow> int EpochClient" where
  "sim_client lookup reply =
     \<lparr>get_height = (\<lambda>h. (Inr h, h)),
      external_http_get = (\<lambda>path params h.
         if path = ''commitment-hash'' then (Inr [(''commitment'', JStr ''cm$C'')], h)
         else (lookup, h)),
      external_http_post = (\<lambda>path body h.
         (Inr [(''tx'', JStr ''tx$T''), (''tx_hash'', JStr ''th$H'')], h)),
      internal_http_post = (\<lambda>path body h. (Inr reply, h)),
      send_signed_transaction = (\<lambda>tx h. (Inr (), h)),
      wait_for_next_block = (\<lambda>h. (Inr (), h + 1))\<rparr>"

definition not_found :: "exn + dict" where
  "not_found = Inl (NameNotAvailable ''alice.test'')"

definition sim_keypair :: KeyPair where
  "sim_keypair =
     \<lparr>get_address = ''ak$alice'',
      sign_transaction = (\<lambda>tx. case tx of SignableTx d \<Rightarrow> Inr (JObj d, ''sg$S''))\<rparr>"

text \<open>
  Stand-ins for the libraries: reversal for the base encoding (it is injective), a parser
  that knows the empty object and the empty list, and a serialiser that prints every value
  the same way.
\<close>

definition sim_libs :: libs where
  "sim_libs =
     \<lparr>b58encode_check = rev,
      json_loads = (\<lambda>s. if s = ''{}'' then Inr (JObj [])
                        else if s = ''[]'' then Inr (JList [])
                        else Inl (ValueError ''Expecting value'')),
      json_dumps = (\<lambda>j. ''{}''),
      SignableTransaction = (\<lambda>d. Inr (SignableTx d))\<rparr>"

definition alice :: AEName where
  "alice =
     \<lparr>domain = ''alice.test'', status = UNKNOWN, preclaimed_block_height = None,
      preclaimed_commitment_hash = None, preclaim_salt = None,
      name_ttl = JInt 0, pointers = JList []\<rparr>"

text \<open>The same name after \<^verbatim>\<open>preclaim\<close> at height 100 with salt 7, and once claimed.\<close>

definition alice_preclaimed :: AEName where
  "alice_preclaimed =
     alice\<lparr>status := PRECLAIMED, preclaimed_block_height := Some 100, preclaim_salt := Some 7\<rparr>"

definition alice_claimed :: AEName where
  "alice_claimed = alice_preclaimed\<lparr>status := CLAIMED\<rparr>"

definition at_height :: "int \<Rightarrow> int world" where
  "at_height h = \<lparr>node = h, calls = []\<rparr>"

section \<open>Properties of the codec\<close>

lemma validate_address_permissive:
  "validate_address p False = Inr (startswith p [''ak$'', ''ok$''])"
  by (simp add: validate_address_def)

lemma validate_name_permissive:
  "validate_name p False = Inr (endswith p [''.aet'', ''.test''])"
  by (simp add: validate_name_def)

lemma validate_pointer_eq:
  "validate_pointer p =
     Inr (\<not> (startswith p [''ak$'', ''ok$''] \<and> endswith p [''.aet'', ''.test'']))"
  by (simp add: validate_pointer_def validate_address_permissive validate_name_permissive)

text \<open>
  C5. The claim is that \<^verbatim>\<open>validate_pointer\<close> answers true exactly for a value that is a
  valid address or a valid name. The code negates both tests: on \<^verbatim>\<open>foo\<close>, which is neither
  an address nor a name, it answers true, and on \<^verbatim>\<open>ak$bob.test\<close>, which is both, it
  answers false.
\<close>

theorem validate_pointer_inverted:
  "validate_address ''foo'' False = Inr False \<and>
   validate_name ''foo'' False = Inr False \<and>
   validate_pointer ''foo'' = Inr True \<and>
   validate_address ''ak$bob.test'' False = Inr True \<and>
   validate_name ''ak$bob.test'' False = Inr True \<and>
   validate_pointer ''ak$bob.test'' = Inr False"
  by (simp add: validate_pointer_def validate_address_def validate_name_def
        startswith_def endswith_def suffix_to_prefix)

lemma encode_name_Inr_iff:
  "encode_name L d = Inr i \<longleftrightarrow> is_ascii d \<and> i = ''nm$'' @ b58encode_check L d"
  by (auto simp: encode_name_def encode_ascii_def)

text \<open>
  C9. Provided the checksummed base encoding is injective, two different valid domains
  never receive the same identifier from \<^verbatim>\<open>_encode_name\<close>, and every valid ASCII domain
  does receive one.
\<close>

theorem encode_name_injective:
  assumes "inj (b58encode_check L)"
    and "validate_name d1 True = Inr True"
    and "validate_name d2 True = Inr True"
    and "d1 \<noteq> d2"
  shows "(\<forall>i. encode_name L d1 = Inr i \<longrightarrow> encode_name L d2 \<noteq> Inr i) \<and>
         (is_ascii d1 \<longrightarrow> (\<exists>i. encode_name L d1 = Inr i))"
proof (intro conjI allI impI)
  fix i
  assume e1: "encode_name L d1 = Inr i"
  show "encode_name L d2 \<noteq> Inr i"
  proof
    assume e2: "encode_name L d2 = Inr i"
    from e1 e2 have "b58encode_check L d1 = b58encode_check L d2"
      by (simp add: encode_name_Inr_iff)
    with assms(1) have "d1 = d2"
      by (simp add: inj_eq)
    with assms(4) show False by simp
  qed
next
  assume "is_ascii d1"
  then show "\<exists>i. encode_name L d1 = Inr i"
    by (simp add: encode_name_Inr_iff)
qed

theorem encode_name_injective_witness:
  "encode_name sim_libs ''alice.test'' = Inr ''nm$tset.ecila'' \<and>
   encode_name sim_libs ''bob.aet'' \<noteq> Inr ''nm$tset.ecila''"
proof -
  have i: "inj (b58encode_check sim_libs)"
    by (simp add: sim_libs_def inj_on_def)
  have v1: "validate_name ''alice.test'' True = Inr True"
    by (simp add: validate_name_def endswith_def suffix_to_prefix)
  have v2: "validate_name ''bob.aet'' True = Inr True"
    by (simp add: validate_name_def endswith_def suffix_to_prefix)
  have ne: "''alice.test'' \<noteq> ''bob.aet''" by simp
  have e: "encode_name sim_libs ''alice.test'' = Inr ''nm$tset.ecila''"
    by (simp add: encode_name_def encode_ascii_def is_ascii_def sim_libs_def)
  from encode_name_injective [OF i v1 v2 ne] e show ?thesis by simp
qed

section \<open>Properties of the name life cycle\<close>

lemmas client_defs =
  client_get_height_def client_external_http_get_def client_external_http_post_def
  client_internal_http_post_def client_send_signed_transaction_def
  client_wait_for_next_block_def keypair_get_address_def keypair_sign_transaction_def

lemmas sim_defs =
  sim_client_def sim_keypair_def sim_libs_def not_found_def alice_def alice_preclaimed_def
  alice_claimed_def at_height_def

lemmas eval_defs =
  encode_name_def encode_ascii_def is_ascii_def name_hash_def contains_def getitem_def
  salt_json_def loads_def discard_def too_early_message_def

subsection \<open>Claiming\<close>

text \<open>
  C2. When \<^verbatim>\<open>preclaimed_block_height\<close> is unset, \<^verbatim>\<open>claim\<close> raises \<^verbatim>\<open>MissingPreclaim\<close>
  whatever the status of the name is, and it does so before any call to the node or to the
  key pair: the object, the node and the record of calls are as they were.
\<close>

theorem claim_missing_preclaim:
  "preclaimed_block_height self = None \<Longrightarrow>
   claim L cl keypair fee self w =
     (Inl (MissingPreclaim ''You must call preclaim before claiming a name''), self, w)"
  by (simp add: claim_def)

theorem claim_missing_preclaim_witness:
  "claim sim_libs (sim_client not_found []) sim_keypair 1 alice (at_height 100) =
     (Inl (MissingPreclaim ''You must call preclaim before claiming a name''), alice,
      at_height 100) \<and>
   claim sim_libs (sim_client not_found []) sim_keypair 1
       (alice\<lparr>status := CLAIMED\<rparr>) (at_height 100) =
     (Inl (MissingPreclaim ''You must call preclaim before claiming a name''),
      alice\<lparr>status := CLAIMED\<rparr>, at_height 100)"
proof -
  have h1: "preclaimed_block_height alice = None"
    by (simp add: alice_def)
  have h2: "preclaimed_block_height (alice\<lparr>status := CLAIMED\<rparr>) = None"
    by (simp add: alice_def)
  show ?thesis
    by (simp add: claim_missing_preclaim [OF h1] claim_missing_preclaim [OF h2])
qed

text \<open>
  C1. For a name whose \<^verbatim>\<open>preclaimed_block_height\<close> is set, when the node reports the
  height \<open>h\<close>: \<^verbatim>\<open>claim\<close> stops with \<^verbatim>\<open>TooEarlyClaim\<close>, having only read the height,
  exactly when \<open>h\<close> is not strictly greater than the recorded height; and when \<open>h\<close> is at
  least one more, it builds the claim transaction, has it signed and submits it, and once
  these calls succeed the status is \<^verbatim>\<open>CLAIMED\<close> and the result is the transaction hash
  with the salt.
\<close>

theorem claim_height_gate:
  assumes pbh: "preclaimed_block_height self = Some pbh"
    and hgt: "get_height cl (node w) = (Inr h, c1)"
  shows
    "((claim L cl keypair fee self w =
        (Inl (TooEarlyClaim too_early_message), self,
         \<lparr>node = c1, calls = calls w @ [GetHeight]\<rparr>)) \<longleftrightarrow> \<not> pbh < h) \<and>
     (pbh + 1 \<le> h \<longrightarrow>
      encode_name L (domain self) = Inr nm \<longrightarrow>
      external_http_post cl ''/tx/name/claim''
        [(''account'', JStr (get_address keypair)), (''name'', JStr nm),
         (''name_salt'', salt_json (preclaim_salt self)), (''fee'', JInt fee)] c1 = (Inr tx, c2) \<longrightarrow>
      SignableTransaction L tx = Inr stx \<longrightarrow>
      sign_transaction keypair stx = Inr (signed, sg) \<longrightarrow>
      send_signed_transaction cl signed c2 = (Inr (), c3) \<longrightarrow>
      claim L cl keypair fee self w =
        ((case getitem tx ''tx_hash'' of
            Inl e \<Rightarrow> Inl e
          | Inr tx_hash \<Rightarrow> Inr (tx_hash, preclaim_salt self)),
         self\<lparr>status := CLAIMED\<rparr>,
         \<lparr>node = c3,
          calls = calls w @
            [GetHeight, GetAddress,
             ExternalHttpPost ''/tx/name/claim''
               [(''account'', JStr (get_address keypair)), (''name'', JStr nm),
                (''name_salt'', salt_json (preclaim_salt self)), (''fee'', JInt fee)],
             SignTransaction stx, SendSignedTransaction signed]\<rparr>))"
proof (intro conjI impI)
  show "(claim L cl keypair fee self w =
        (Inl (TooEarlyClaim too_early_message), self,
         \<lparr>node = c1, calls = calls w @ [GetHeight]\<rparr>)) \<longleftrightarrow> \<not> pbh < h"
    using pbh hgt
    by (auto simp: Let_def claim_def client_get_height_def keypair_get_address_def
          client_external_http_post_def keypair_sign_transaction_def
          client_send_signed_transaction_def
          split: prod.splits sum.splits)
next
  assume "pbh + 1 \<le> h"
    and "encode_name L (domain self) = Inr nm"
    and "external_http_post cl ''/tx/name/claim''
        [(''account'', JStr (get_address keypair)), (''name'', JStr nm),
         (''name_salt'', salt_json (preclaim_salt self)), (''fee'', JInt fee)] c1 = (Inr tx, c2)"
    and "SignableTransaction L tx = Inr stx"
    and "sign_transaction keypair stx = Inr (signed, sg)"
    and "send_signed_transaction cl signed c2 = (Inr (), c3)"
  with pbh hgt show "claim L cl keypair fee self w =
        ((case getitem tx ''tx_hash'' of
            Inl e \<Rightarrow> Inl e
          | Inr tx_hash \<Rightarrow> Inr (tx_hash, preclaim_salt self)),
         self\<lparr>status := CLAIMED\<rparr>,
         \<lparr>node = c3,
          calls = calls w @
            [GetHeight, GetAddress,
             ExternalHttpPost ''/tx/name/claim''
               [(''account'', JStr (get_address keypair)), (''name'', JStr nm),
                (''name_salt'', salt_json (preclaim_salt self)), (''fee'', JInt fee)],
             SignTransaction stx, SendSignedTransaction signed]\<rparr>)"
    by (simp add: Let_def claim_def client_get_height_def keypair_get_address_def
          client_external_http_post_def keypair_sign_transaction_def
          client_send_signed_transaction_def split: sum.splits)
qed

theorem claim_height_gate_witness:
  "claim sim_libs (sim_client not_found []) sim_keypair 1 alice_preclaimed (at_height 100) =
     (Inl (TooEarlyClaim too_early_message), alice_preclaimed,
      \<lparr>node = 100, calls = [GetHeight]\<rparr>) \<and>
   claim sim_libs (sim_client not_found []) sim_keypair 1 alice_preclaimed (at_height 101) =
     (Inr (JStr ''th$H'', Some 7), alice_claimed,
      \<lparr>node = 101, calls =
         [GetHeight, GetAddress,
          ExternalHttpPost ''/tx/name/claim''
            [(''account'', JStr ''ak$alice''), (''name'', JStr ''nm$tset.ecila''),
             (''name_salt'', JInt 7), (''fee'', JInt 1)],
          SignTransaction (SignableTx [(''tx'', JStr ''tx$T''), (''tx_hash'', JStr ''th$H'')]),
          SendSignedTransaction (JObj [(''tx'', JStr ''tx$T''), (''tx_hash'', JStr ''th$H'')])]\<rparr>)"
proof -
  have p: "preclaimed_block_height alice_preclaimed = Some 100"
    by (simp add: alice_preclaimed_def)
  have h100: "get_height (sim_client not_found []) (node (at_height 100)) = (Inr 100, 100)"
    by (simp add: sim_client_def at_height_def)
  have h101: "get_height (sim_client not_found []) (node (at_height 101)) = (Inr 101, 101)"
    by (simp add: sim_client_def at_height_def)
  have early:
    "claim sim_libs (sim_client not_found []) sim_keypair 1 alice_preclaimed (at_height 100) =
       (Inl (TooEarlyClaim too_early_message), alice_preclaimed,
        \<lparr>node = 100, calls = [GetHeight]\<rparr>)"
    using claim_height_gate [OF p h100, where L = sim_libs and keypair = sim_keypair and fee = 1]
    by (simp add: at_height_def)
  have later:
    "claim sim_libs (sim_client not_found []) sim_keypair 1 alice_preclaimed (at_height 101) =
     (Inr (JStr ''th$H'', Some 7), alice_claimed,
      \<lparr>node = 101, calls =
         [GetHeight, GetAddress,
          ExternalHttpPost ''/tx/name/claim''
            [(''account'', JStr ''ak$alice''), (''name'', JStr ''nm$tset.ecila''),
             (''name_salt'', JInt 7), (''fee'', JInt 1)],
          SignTransaction (SignableTx [(''tx'', JStr ''tx$T''), (''tx_hash'', JStr ''th$H'')]),
          SendSignedTransaction (JObj [(''tx'', JStr ''tx$T''), (''tx_hash'', JStr ''th$H'')])]\<rparr>)"
    using claim_height_gate [OF p h101, where L = sim_libs and keypair = sim_keypair and fee = 1
        and nm = "''nm$tset.ecila''"
        and tx = "[(''tx'', JStr ''tx$T''), (''tx_hash'', JStr ''th$H'')]"
        and ?c2.0 = 101
        and stx = "SignableTx [(''tx'', JStr ''tx$T''), (''tx_hash'', JStr ''th$H'')]"
        and signed = "JObj [(''tx'', JStr ''tx$T''), (''tx_hash'', JStr ''th$H'')]"
        and sg = "''sg$S''" and ?c3.0 = 101]
    by (simp add: sim_defs eval_defs)
  from early later show ?thesis by simp
qed

subsection \<open>The blocking claim\<close>

lemma claim_calls:
  assumes "claim L cl keypair fee self w = (r, self', w')"
  shows "\<exists>ys. calls w' = calls w @ ys \<and> count_list ys WaitForNextBlock = 0 \<and>
           count_list ys GetHeight = (if preclaimed_block_height self = None then 0 else 1)"
  using assms
  by (auto simp: Let_def claim_def client_defs
        split: option.splits prod.splits sum.splits if_splits)

lemma claim_keeps_height:
  assumes "claim L cl keypair fee self w = (r, self', w')"
  shows "preclaimed_block_height self' = preclaimed_block_height self"
  using assms
  by (auto simp: Let_def claim_def client_defs
        split: option.splits prod.splits sum.splits if_splits)

lemma too_early_has_preclaim:
  assumes "claim L cl keypair fee self w = (r, self', w')" and "is_TooEarlyClaim r"
  shows "preclaimed_block_height self \<noteq> None"
  using assms by (cases "preclaimed_block_height self") (auto simp: claim_def)

text \<open>
  C4. \<^verbatim>\<open>claim_blocking\<close> calls \<^verbatim>\<open>claim\<close>. If that call does not raise \<^verbatim>\<open>TooEarlyClaim\<close>
  its outcome is the outcome of \<^verbatim>\<open>claim_blocking\<close> and nothing is waited for. If it does,
  \<^verbatim>\<open>claim_blocking\<close> waits for the next block once and, unless the wait itself fails,
  calls \<^verbatim>\<open>claim\<close> once more, whose outcome (a second \<^verbatim>\<open>TooEarlyClaim\<close> included) is final.
  The record of calls shows one wait exactly when the first call raised
  \<^verbatim>\<open>TooEarlyClaim\<close>, and one reading of the height for each of the at most two attempts.
\<close>

theorem claim_blocking_retries_once:
  assumes first: "claim L cl keypair fee self w = (r1, self1, w1)"
    and waited: "wait_for_next_block cl (node w1) = (rw, c2)"
    and second: "claim L cl keypair fee self1 \<lparr>node = c2, calls = calls w1 @ [WaitForNextBlock]\<rparr>
                   = (r2, self2, w3)"
    and outcome: "claim_blocking L cl keypair fee self w = (r, self', w')"
  shows
    "(\<not> is_TooEarlyClaim r1 \<longrightarrow> (r, self', w') = (discard r1, self1, w1)) \<and>
     (is_TooEarlyClaim r1 \<longrightarrow>
        (case rw of
           Inl e \<Rightarrow>
             (r, self', w') = (Inl e, self1, \<lparr>node = c2, calls = calls w1 @ [WaitForNextBlock]\<rparr>)
         | Inr _ \<Rightarrow> (r, self', w') = (discard r2, self2, w3))) \<and>
     count_list (calls w') WaitForNextBlock =
       count_list (calls w) WaitForNextBlock + (if is_TooEarlyClaim r1 then 1 else 0) \<and>
     count_list (calls w') GetHeight =
       count_list (calls w) GetHeight +
         (if preclaimed_block_height self = None then 0
          else if is_TooEarlyClaim r1 \<and> \<not> isl rw then 2 else 1)"
proof -
  obtain ys where ys: "calls w1 = calls w @ ys" "count_list ys WaitForNextBlock = 0"
    "count_list ys GetHeight = (if preclaimed_block_height self = None then 0 else 1)"
    using claim_calls [OF first] by blast
  obtain zs where zs: "calls w3 = (calls w1 @ [WaitForNextBlock]) @ zs"
    "count_list zs WaitForNextBlock = 0"
    "count_list zs GetHeight = (if preclaimed_block_height self1 = None then 0 else 1)"
    using claim_calls [OF second] by auto
  have same: "preclaimed_block_height self1 = preclaimed_block_height self"
    using claim_keeps_height [OF first] .
  show ?thesis
  proof (cases "is_TooEarlyClaim r1")
    case False
    with first outcome have "(r, self', w') = (discard r1, self1, w1)"
      by (simp add: claim_blocking_def)
    with False ys show ?thesis by simp
  next
    case True
    then have set: "preclaimed_block_height self \<noteq> None"
      using too_early_has_preclaim [OF first] by simp
    show ?thesis
    proof (cases rw)
      case (Inl e)
      with True first waited outcome
      have "(r, self', w') = (Inl e, self1, \<lparr>node = c2, calls = calls w1 @ [WaitForNextBlock]\<rparr>)"
        by (simp add: claim_blocking_def client_wait_for_next_block_def)
      with True Inl ys set show ?thesis by auto
    next
      case (Inr u)
      with True first waited second outcome
      have "(r, self', w') = (discard r2, self2, w3)"
        by (simp add: claim_blocking_def client_wait_for_next_block_def)
      with True Inr ys zs set same show ?thesis by auto
    qed
  qed
qed

theorem claim_blocking_retries_once_witness:
  "claim_blocking sim_libs (sim_client not_found []) sim_keypair 1 alice_preclaimed
       (at_height 100) =
     (Inr (), alice_claimed,
      \<lparr>node = 101, calls =
         [GetHeight, WaitForNextBlock, GetHeight, GetAddress,
          ExternalHttpPost ''/tx/name/claim''
            [(''account'', JStr ''ak$alice''), (''name'', JStr ''nm$tset.ecila''),
             (''name_salt'', JInt 7), (''fee'', JInt 1)],
          SignTransaction (SignableTx [(''tx'', JStr ''tx$T''), (''tx_hash'', JStr ''th$H'')]),
          SendSignedTransaction (JObj [(''tx'', JStr ''tx$T''), (''tx_hash'', JStr ''th$H'')])]\<rparr>)"
proof -
  let ?cl = "sim_client not_found []"
  let ?w3 = "\<lparr>node = 101, calls =
         [GetHeight, WaitForNextBlock, GetHeight, GetAddress,
          ExternalHttpPost ''/tx/name/claim''
            [(''account'', JStr ''ak$alice''), (''name'', JStr ''nm$tset.ecila''),
             (''name_salt'', JInt 7), (''fee'', JInt 1)],
          SignTransaction (SignableTx [(''tx'', JStr ''tx$T''), (''tx_hash'', JStr ''th$H'')]),
          SendSignedTransaction (JObj [(''tx'', JStr ''tx$T''), (''tx_hash'', JStr ''th$H'')])]\<rparr>
        :: int world"
  obtain r s v where out:
    "claim_blocking sim_libs ?cl sim_keypair 1 alice_preclaimed (at_height 100) = (r, s, v)"
    by (cases "claim_blocking sim_libs ?cl sim_keypair 1 alice_preclaimed (at_height 100)")
  have first: "claim sim_libs ?cl sim_keypair 1 alice_preclaimed (at_height 100) =
      (Inl (TooEarlyClaim too_early_message), alice_preclaimed,
       \<lparr>node = 100, calls = [GetHeight]\<rparr>)"
    by (simp add: claim_def client_defs sim_defs eval_defs)
  have waited: "wait_for_next_block ?cl (node \<lparr>node = 100, calls = [GetHeight]\<rparr>) = (Inr (), 101)"
    by (simp add: sim_defs)
  have second: "claim sim_libs ?cl sim_keypair 1 alice_preclaimed
      \<lparr>node = 101, calls = calls \<lparr>node = 100::int, calls = [GetHeight]\<rparr> @ [WaitForNextBlock]\<rparr> =
      (Inr (JStr ''th$H'', Some 7), alice_claimed, ?w3)"
    by (simp add: claim_def client_defs sim_defs eval_defs)
  from claim_blocking_retries_once [OF first waited second out] out
  show ?thesis
    by (simp add: discard_def)
qed

subsection \<open>Refreshing the status\<close>

text \<open>
  C3. When the lookup of \<^verbatim>\<open>update_status\<close> fails with \<^verbatim>\<open>NameNotAvailable\<close>, the status
  becomes \<^verbatim>\<open>AVAILABLE\<close> if it was \<^verbatim>\<open>UNKNOWN\<close> and nothing else changes; in every other
  status the name is left as it was. When the lookup succeeds the status is \<^verbatim>\<open>CLAIMED\<close>,
  and \<^verbatim>\<open>name_ttl\<close> and \<^verbatim>\<open>pointers\<close> are taken from the response that carries them.
\<close>

theorem update_status_outcomes:
  "(external_http_get cl ''name'' [(''name'', JStr (domain self))] (node w)
      = (Inl (NameNotAvailable x), c1) \<longrightarrow>
    update_status L cl self w =
      (Inr (),
       self\<lparr>status := (if status self = UNKNOWN then AVAILABLE else status self)\<rparr>,
       \<lparr>node = c1,
        calls = calls w @ [ExternalHttpGet ''name'' [(''name'', JStr (domain self))]]\<rparr>)) \<and>
   (external_http_get cl ''name'' [(''name'', JStr (domain self))] (node w)
      = (Inr response, c1) \<longrightarrow>
    status (fst (snd (update_status L cl self w))) = CLAIMED \<and>
    (getitem response ''name_ttl'' = Inr ttl \<longrightarrow>
     getitem response ''pointers'' = Inr (JStr s) \<longrightarrow>
     json_loads L s = Inr p \<longrightarrow>
     update_status L cl self w =
       (Inr (), self\<lparr>status := CLAIMED, name_ttl := ttl, pointers := p\<rparr>,
        \<lparr>node = c1,
         calls = calls w @ [ExternalHttpGet ''name'' [(''name'', JStr (domain self))]]\<rparr>)))"
  by (auto simp: Let_def update_status_def update_status_try_def client_external_http_get_def
        loads_def split: sum.splits exn.splits prod.splits json.splits)

theorem update_status_outcomes_witness:
  "update_status sim_libs (sim_client not_found []) alice (at_height 100) =
     (Inr (), alice\<lparr>status := AVAILABLE\<rparr>,
      \<lparr>node = 100, calls = [ExternalHttpGet ''name'' [(''name'', JStr ''alice.test'')]]\<rparr>) \<and>
   update_status sim_libs (sim_client not_found []) alice_preclaimed (at_height 100) =
     (Inr (), alice_preclaimed,
      \<lparr>node = 100, calls = [ExternalHttpGet ''name'' [(''name'', JStr ''alice.test'')]]\<rparr>) \<and>
   update_status sim_libs
       (sim_client (Inr [(''name_ttl'', JInt 500), (''pointers'', JStr ''{}'')]) [])
       alice (at_height 100) =
     (Inr (), alice\<lparr>status := CLAIMED, name_ttl := JInt 500, pointers := JObj []\<rparr>,
      \<lparr>node = 100, calls = [ExternalHttpGet ''name'' [(''name'', JStr ''alice.test'')]]\<rparr>)"
proof -
  have a: "update_status sim_libs (sim_client not_found []) alice (at_height 100) =
     (Inr (), alice\<lparr>status := AVAILABLE\<rparr>,
      \<lparr>node = 100, calls = [ExternalHttpGet ''name'' [(''name'', JStr ''alice.test'')]]\<rparr>)"
    using update_status_outcomes [where L = sim_libs and cl = "sim_client not_found []"
        and self = alice and w = "at_height 100" and x = "''alice.test''" and ?c1.0 = 100,
        THEN conjunct1]
    by (simp add: sim_defs)
  have b: "update_status sim_libs (sim_client not_found []) alice_preclaimed (at_height 100) =
     (Inr (), alice_preclaimed,
      \<lparr>node = 100, calls = [ExternalHttpGet ''name'' [(''name'', JStr ''alice.test'')]]\<rparr>)"
    using update_status_outcomes [where L = sim_libs and cl = "sim_client not_found []"
        and self = alice_preclaimed and w = "at_height 100" and x = "''alice.test''"
        and ?c1.0 = 100, THEN conjunct1]
    by (simp add: sim_defs)
  have c: "update_status sim_libs
       (sim_client (Inr [(''name_ttl'', JInt 500), (''pointers'', JStr ''{}'')]) [])
       alice (at_height 100) =
     (Inr (), alice\<lparr>status := CLAIMED, name_ttl := JInt 500, pointers := JObj []\<rparr>,
      \<lparr>node = 100, calls = [ExternalHttpGet ''name'' [(''name'', JStr ''alice.test'')]]\<rparr>)"
    using update_status_outcomes [where L = sim_libs
        and cl = "sim_client (Inr [(''name_ttl'', JInt 500), (''pointers'', JStr ''{}'')]) []"
        and self = alice and w = "at_height 100"
        and response = "[(''name_ttl'', JInt 500), (''pointers'', JStr ''{}'')]"
        and ttl = "JInt 500" and s = "''{}''" and p = "JObj []" and ?c1.0 = 100,
        THEN conjunct2]
    by (simp add: sim_defs eval_defs)
  from a b c show ?thesis by simp
qed

subsection \<open>Managing a claimed name\<close>

text \<open>
  C8. On a name whose status is not \<^verbatim>\<open>CLAIMED\<close>, \<^verbatim>\<open>update\<close> fails its assertion before
  any call to the node or to the key pair: the object, the node and the record of calls are
  as they were.
\<close>

theorem update_requires_claimed:
  "status self \<noteq> CLAIMED \<Longrightarrow>
   update L cl target ttl fee self w =
     (Inl (AssertionError ''Must be claimed to update pointer''), self, w)"
  by (simp add: update_def)

theorem update_requires_claimed_witness:
  "update sim_libs (sim_client not_found [(''name_hash'', JStr ''nm$tset.ecila'')])
       (Address ''ak$bob'') 50 1 alice_preclaimed (at_height 100) =
     (Inl (AssertionError ''Must be claimed to update pointer''), alice_preclaimed,
      at_height 100)"
proof -
  have h: "status alice_preclaimed \<noteq> CLAIMED"
    by (simp add: alice_preclaimed_def)
  show ?thesis
    by (rule update_requires_claimed [OF h])
qed

text \<open>
  C10. When the response to the request of \<^verbatim>\<open>update\<close> has no \<^verbatim>\<open>name_hash\<close>, the method
  raises \<^verbatim>\<open>UpdateError\<close> with that response and the name is exactly as before; when the
  response has it, only \<^verbatim>\<open>pointers\<close> changes. Whatever the outcome of \<^verbatim>\<open>update\<close>, the
  status is kept, and the name differs from what it was only after a response with
  \<^verbatim>\<open>name_hash\<close>.
\<close>

theorem update_error_keeps_pointers:
  "(status self = CLAIMED \<longrightarrow>
    (target = Address t \<or> target = Oracle (Some t)) \<longrightarrow>
    encode_name L (domain self) = Inr nh \<longrightarrow>
    internal_http_post cl ''name-update-tx''
      [(''name_hash'', JStr nh), (''name_ttl'', name_ttl self), (''ttl'', JInt ttl),
       (''pointers'', JStr (json_dumps L (JObj
          (if startswith t [''ak''] then [(''account_pubkey'', JStr t)]
           else [(''oracle_pubkey'', JStr t)])))),
       (''fee'', JInt fee)] (node w) = (Inr response, c1) \<longrightarrow>
    update L cl target ttl fee self w =
      (if contains response ''name_hash'' then
         (Inr (),
          self\<lparr>pointers := JObj
            (if startswith t [''ak''] then [(''account_pubkey'', JStr t)]
             else [(''oracle_pubkey'', JStr t)])\<rparr>,
          \<lparr>node = c1, calls = calls w @
             [InternalHttpPost ''name-update-tx''
                [(''name_hash'', JStr nh), (''name_ttl'', name_ttl self), (''ttl'', JInt ttl),
                 (''pointers'', JStr (json_dumps L (JObj
                    (if startswith t [''ak''] then [(''account_pubkey'', JStr t)]
                     else [(''oracle_pubkey'', JStr t)])))),
                 (''fee'', JInt fee)]]\<rparr>)
       else
         (Inl (UpdateError response), self,
          \<lparr>node = c1, calls = calls w @
             [InternalHttpPost ''name-update-tx''
                [(''name_hash'', JStr nh), (''name_ttl'', name_ttl self), (''ttl'', JInt ttl),
                 (''pointers'', JStr (json_dumps L (JObj
                    (if startswith t [''ak''] then [(''account_pubkey'', JStr t)]
                     else [(''oracle_pubkey'', JStr t)])))),
                 (''fee'', JInt fee)]]\<rparr>))) \<and>
   (update L cl target ttl fee self w = (r, self', w') \<longrightarrow>
    status self' = status self \<and>
    (self' = self \<or>
     (r = Inr () \<and>
      (\<exists>body response.
         calls w' = calls w @ [InternalHttpPost ''name-update-tx'' body] \<and>
         internal_http_post cl ''name-update-tx'' body (node w) = (Inr response, node w') \<and>
         contains response ''name_hash''))))"
proof (intro conjI impI)
  assume "status self = CLAIMED" and "target = Address t \<or> target = Oracle (Some t)"
    and "encode_name L (domain self) = Inr nh"
    and "internal_http_post cl ''name-update-tx''
      [(''name_hash'', JStr nh), (''name_ttl'', name_ttl self), (''ttl'', JInt ttl),
       (''pointers'', JStr (json_dumps L (JObj
          (if startswith t [''ak''] then [(''account_pubkey'', JStr t)]
           else [(''oracle_pubkey'', JStr t)])))),
       (''fee'', JInt fee)] (node w) = (Inr response, c1)"
  then show "update L cl target ttl fee self w =
      (if contains response ''name_hash'' then
         (Inr (),
          self\<lparr>pointers := JObj
            (if startswith t [''ak''] then [(''account_pubkey'', JStr t)]
             else [(''oracle_pubkey'', JStr t)])\<rparr>,
          \<lparr>node = c1, calls = calls w @
             [InternalHttpPost ''name-update-tx''
                [(''name_hash'', JStr nh), (''name_ttl'', name_ttl self), (''ttl'', JInt ttl),
                 (''pointers'', JStr (json_dumps L (JObj
                    (if startswith t [''ak''] then [(''account_pubkey'', JStr t)]
                     else [(''oracle_pubkey'', JStr t)])))),
                 (''fee'', JInt fee)]]\<rparr>)
       else
         (Inl (UpdateError response), self,
          \<lparr>node = c1, calls = calls w @
             [InternalHttpPost ''name-update-tx''
                [(''name_hash'', JStr nh), (''name_ttl'', name_ttl self), (''ttl'', JInt ttl),
                 (''pointers'', JStr (json_dumps L (JObj
                    (if startswith t [''ak''] then [(''account_pubkey'', JStr t)]
                     else [(''oracle_pubkey'', JStr t)])))),
                 (''fee'', JInt fee)]]\<rparr>))"
    by (auto simp: Let_def update_def name_hash_def client_internal_http_post_def)
next
  assume u: "update L cl target ttl fee self w = (r, self', w')"
  then show "status self' = status self"
    by (auto simp: Let_def update_def client_internal_http_post_def
          split: if_splits sum.splits prod.splits target.splits option.splits)
  from u show "self' = self \<or>
     (r = Inr () \<and>
      (\<exists>body response.
         calls w' = calls w @ [InternalHttpPost ''name-update-tx'' body] \<and>
         internal_http_post cl ''name-update-tx'' body (node w) = (Inr response, node w') \<and>
         contains response ''name_hash''))"
    by (auto simp: Let_def update_def client_internal_http_post_def
          split: if_splits sum.splits prod.splits target.splits option.splits)
qed

theorem update_error_keeps_pointers_witness:
  "update sim_libs (sim_client not_found [(''reason'', JStr ''rejected'')])
       (Address ''ak$bob'') 50 1 alice_claimed (at_height 200) =
     (Inl (UpdateError [(''reason'', JStr ''rejected'')]), alice_claimed,
      \<lparr>node = 200, calls =
         [InternalHttpPost ''name-update-tx''
            [(''name_hash'', JStr ''nm$tset.ecila''), (''name_ttl'', JInt 0),
             (''ttl'', JInt 50), (''pointers'', JStr ''{}''), (''fee'', JInt 1)]]\<rparr>) \<and>
   update sim_libs (sim_client not_found [(''name_hash'', JStr ''nm$tset.ecila'')])
       (Address ''ak$bob'') 50 1 alice_claimed (at_height 200) =
     (Inr (), alice_claimed\<lparr>pointers := JObj [(''account_pubkey'', JStr ''ak$bob'')]\<rparr>,
      \<lparr>node = 200, calls =
         [InternalHttpPost ''name-update-tx''
            [(''name_hash'', JStr ''nm$tset.ecila''), (''name_ttl'', JInt 0),
             (''ttl'', JInt 50), (''pointers'', JStr ''{}''), (''fee'', JInt 1)]]\<rparr>) \<and>
   status alice_claimed = CLAIMED \<and> pointers alice_claimed = JList []"
proof -
  have no: "update sim_libs (sim_client not_found [(''reason'', JStr ''rejected'')])
       (Address ''ak$bob'') 50 1 alice_claimed (at_height 200) =
     (Inl (UpdateError [(''reason'', JStr ''rejected'')]), alice_claimed,
      \<lparr>node = 200, calls =
         [InternalHttpPost ''name-update-tx''
            [(''name_hash'', JStr ''nm$tset.ecila''), (''name_ttl'', JInt 0),
             (''ttl'', JInt 50), (''pointers'', JStr ''{}''), (''fee'', JInt 1)]]\<rparr>)"
    using update_error_keeps_pointers [where L = sim_libs
        and cl = "sim_client not_found [(''reason'', JStr ''rejected'')]"
        and target = "Address ''ak$bob''" and t = "''ak$bob''" and ttl = 50 and fee = 1
        and self = alice_claimed and w = "at_height 200" and nh = "''nm$tset.ecila''"
        and response = "[(''reason'', JStr ''rejected'')]" and ?c1.0 = 200,
        THEN conjunct1]
    by (simp add: sim_defs eval_defs startswith_def)
  have yes: "update sim_libs (sim_client not_found [(''name_hash'', JStr ''nm$tset.ecila'')])
       (Address ''ak$bob'') 50 1 alice_claimed (at_height 200) =
     (Inr (), alice_claimed\<lparr>pointers := JObj [(''account_pubkey'', JStr ''ak$bob'')]\<rparr>,
      \<lparr>node = 200, calls =
         [InternalHttpPost ''name-update-tx''
            [(''name_hash'', JStr ''nm$tset.ecila''), (''name_ttl'', JInt 0),
             (''ttl'', JInt 50), (''pointers'', JStr ''{}''), (''fee'', JInt 1)]]\<rparr>)"
    using update_error_keeps_pointers [where L = sim_libs
        and cl = "sim_client not_found [(''name_hash'', JStr ''nm$tset.ecila'')]"
        and target = "Address ''ak$bob''" and t = "''ak$bob''" and ttl = 50 and fee = 1
        and self = alice_claimed and w = "at_height 200" and nh = "''nm$tset.ecila''"
        and response = "[(''name_hash'', JStr ''nm$tset.ecila'')]" and ?c1.0 = 200,
        THEN conjunct1]
    by (simp add: sim_defs eval_defs startswith_def)
  from no yes show ?thesis by (simp add: sim_defs)
qed

text \<open>
  C7. For a \<^verbatim>\<open>CLAIMED\<close> name, when the response to the request of \<^verbatim>\<open>revoke\<close> has no
  \<^verbatim>\<open>name_hash\<close>, the method raises \<^verbatim>\<open>AENSException\<close> with that response as payload and
  the name is left as it was, still \<^verbatim>\<open>CLAIMED\<close>; when the response has it, the status
  becomes \<^verbatim>\<open>REVOKED\<close>.
\<close>

theorem revoke_outcomes:
  assumes "status self = CLAIMED"
    and "encode_name L (domain self) = Inr nh"
    and "internal_http_post cl ''name-revoke-tx''
           [(''name_hash'', JStr nh), (''fee'', JInt fee)] (node w) = (Inr response, c1)"
  shows
    "(\<not> contains response ''name_hash'' \<longrightarrow>
        revoke L cl fee self w =
          (Inl (AENSException ''Error revoking name'' response), self,
           \<lparr>node = c1, calls = calls w @
              [InternalHttpPost ''name-revoke-tx'' [(''name_hash'', JStr nh), (''fee'', JInt fee)]]\<rparr>) \<and>
        status (fst (snd (revoke L cl fee self w))) = CLAIMED) \<and>
     (contains response ''name_hash'' \<longrightarrow>
        revoke L cl fee self w =
          (Inr (), self\<lparr>status := REVOKED\<rparr>,
           \<lparr>node = c1, calls = calls w @
              [InternalHttpPost ''name-revoke-tx'' [(''name_hash'', JStr nh), (''fee'', JInt fee)]]\<rparr>))"
  using assms by (simp add: revoke_def name_hash_def client_internal_http_post_def)

theorem revoke_outcomes_witness:
  "revoke sim_libs (sim_client not_found [(''reason'', JStr ''rejected'')]) 1
       alice_claimed (at_height 200) =
     (Inl (AENSException ''Error revoking name'' [(''reason'', JStr ''rejected'')]),
      alice_claimed,
      \<lparr>node = 200, calls =
         [InternalHttpPost ''name-revoke-tx''
            [(''name_hash'', JStr ''nm$tset.ecila''), (''fee'', JInt 1)]]\<rparr>) \<and>
   revoke sim_libs (sim_client not_found [(''name_hash'', JStr ''nm$tset.ecila'')]) 1
       alice_claimed (at_height 200) =
     (Inr (), alice_claimed\<lparr>status := REVOKED\<rparr>,
      \<lparr>node = 200, calls =
         [InternalHttpPost ''name-revoke-tx''
            [(''name_hash'', JStr ''nm$tset.ecila''), (''fee'', JInt 1)]]\<rparr>)"
proof -
  have st: "status alice_claimed = CLAIMED"
    by (simp add: sim_defs)
  have nh: "encode_name sim_libs (domain alice_claimed) = Inr ''nm$tset.ecila''"
    by (simp add: sim_defs eval_defs)
  have no: "internal_http_post (sim_client not_found [(''reason'', JStr ''rejected'')])
      ''name-revoke-tx'' [(''name_hash'', JStr ''nm$tset.ecila''), (''fee'', JInt 1)]
      (node (at_height 200)) = (Inr [(''reason'', JStr ''rejected'')], 200)"
    by (simp add: sim_defs)
  have yes: "internal_http_post (sim_client not_found [(''name_hash'', JStr ''nm$tset.ecila'')])
      ''name-revoke-tx'' [(''name_hash'', JStr ''nm$tset.ecila''), (''fee'', JInt 1)]
      (node (at_height 200)) = (Inr [(''name_hash'', JStr ''nm$tset.ecila'')], 200)"
    by (simp add: sim_defs)
  from revoke_outcomes [OF st nh no] revoke_outcomes [OF st nh yes]
  show ?thesis
    by (simp add: contains_def at_height_def)
qed

subsection \<open>The order of the states\<close>

lemma status_after_update_status:
  "update_status L cl self w = (r, self', w') \<Longrightarrow>
   status self' \<in> {status self, AVAILABLE, CLAIMED}"
  by (auto simp: Let_def update_status_def update_status_try_def client_external_http_get_def
        split: if_splits sum.splits prod.splits exn.splits)

lemma status_after_preclaim:
  "preclaim L cl keypair fee salt rnd self w = (r, self', w') \<Longrightarrow>
   status self' \<in> {status self, PRECLAIMED}"
  by (auto simp: Let_def preclaim_def get_commitment_hash_def client_defs
        split: if_splits sum.splits prod.splits)

lemma status_after_claim:
  "claim L cl keypair fee self w = (r, self', w') \<Longrightarrow>
   status self' \<in> {status self, CLAIMED}"
  by (auto simp: Let_def claim_def client_defs
        split: if_splits sum.splits prod.splits option.splits)

lemma status_after_transfer_ownership:
  "transfer_ownership L cl recipient fee self w = (r, self', w') \<Longrightarrow>
   (r = Inr () \<and> self' = self\<lparr>status := TRANSFERRED\<rparr>) \<or> (isl r \<and> self' = self)"
  by (auto simp: transfer_ownership_def client_defs
        split: if_splits sum.splits prod.splits)

lemma status_after_revoke:
  "revoke L cl fee self w = (r, self', w') \<Longrightarrow>
   (r = Inr () \<and> self' = self\<lparr>status := REVOKED\<rparr>) \<or> (isl r \<and> self' = self)"
  by (auto simp: revoke_def client_defs
        split: if_splits sum.splits prod.splits)

text \<open>
  C6. The claim is that a name becomes \<^verbatim>\<open>TRANSFERRED\<close> or \<^verbatim>\<open>REVOKED\<close> from \<^verbatim>\<open>CLAIMED\<close>
  only. \<^verbatim>\<open>transfer_ownership\<close> and \<^verbatim>\<open>revoke\<close> do not look at the status: on a new name,
  whose status is \<^verbatim>\<open>UNKNOWN\<close>, a response with \<^verbatim>\<open>name_hash\<close> makes it \<^verbatim>\<open>TRANSFERRED\<close>,
  or \<^verbatim>\<open>REVOKED\<close>, while \<^verbatim>\<open>update\<close> on the same name fails its assertion.
\<close>

theorem transfer_and_revoke_unguarded:
  "status alice = UNKNOWN \<and>
   transfer_ownership sim_libs (sim_client not_found [(''name_hash'', JStr ''nm$tset.ecila'')])
       ''ak$bob'' 1 alice (at_height 100) =
     (Inr (), alice\<lparr>status := TRANSFERRED\<rparr>,
      \<lparr>node = 100, calls =
         [InternalHttpPost ''name-transfer-tx''
            [(''name_hash'', JStr ''nm$tset.ecila''), (''recipient_pubkey'', JStr ''ak$bob''),
             (''fee'', JInt 1)]]\<rparr>) \<and>
   revoke sim_libs (sim_client not_found [(''name_hash'', JStr ''nm$tset.ecila'')])
       1 alice (at_height 100) =
     (Inr (), alice\<lparr>status := REVOKED\<rparr>,
      \<lparr>node = 100, calls =
         [InternalHttpPost ''name-revoke-tx''
            [(''name_hash'', JStr ''nm$tset.ecila''), (''fee'', JInt 1)]]\<rparr>) \<and>
   update sim_libs (sim_client not_found [(''name_hash'', JStr ''nm$tset.ecila'')])
       (Address ''ak$bob'') 50 1 alice (at_height 100) =
     (Inl (AssertionError ''Must be claimed to update pointer''), alice, at_height 100)"
  by (simp add: transfer_ownership_def revoke_def update_def name_hash_def encode_name_def
        encode_ascii_def is_ascii_def client_internal_http_post_def sim_client_def sim_libs_def
        alice_def at_height_def contains_def)

end
